theory Spec2Isabelle
  imports Main
begin

section \<open>Python strings\<close>

text \<open>
  A Python \<^verbatim>\<open>str\<close> is modelled as a \<^typ>\<open>string\<close>, one \<^typ>\<open>char\<close> per code point.
  The type \<^typ>\<open>char\<close> has 256 values, so the model covers the strings whose code points
  lie below U+0100; the separators the program looks for (\<^verbatim>\<open>:\<close>, \<^verbatim>\<open>.\<close>, \<^verbatim>\<open>/\<close>) are ASCII.
  The console output of the program (\<^verbatim>\<open>print\<close>) is not part of the model, and the
  fixed prefix of an error message is represented by the constructor of the error value.
\<close>

definition isspace :: "char \<Rightarrow> bool" where
  \<comment> \<open>The code points below U+0100 that \<^verbatim>\<open>str.strip()\<close> removes: TAB, LF, VT, FF, CR,
      FS, GS, RS, US, SPACE, NEL and NBSP.\<close>
  "isspace c = ((of_char c :: nat) \<in> {9, 10, 11, 12, 13, 28, 29, 30, 31, 32, 133, 160})"

definition strip :: "string \<Rightarrow> string" where
  \<comment> \<open>\<^verbatim>\<open>s.strip()\<close>\<close>
  "strip s = rev (dropWhile isspace (rev (dropWhile isspace s)))"

fun split :: "string \<Rightarrow> char \<Rightarrow> nat \<Rightarrow> string list" where
  \<comment> \<open>\<^verbatim>\<open>s.split(sep, maxsplit)\<close> for a separator of one character\<close>
  "split s sep 0 = [s]"
| "split s sep (Suc n) =
     (if sep \<in> set s
      then takeWhile (\<lambda>c. c \<noteq> sep) s # split (tl (dropWhile (\<lambda>c. c \<noteq> sep) s)) sep n
      else [s])"

fun join :: "string \<Rightarrow> string list \<Rightarrow> string" where
  \<comment> \<open>\<^verbatim>\<open>sep.join(parts)\<close>\<close>
  "join sep [] = []"
| "join sep [w] = w"
| "join sep (w # ws) = w @ sep @ join sep ws"

definition replace :: "string \<Rightarrow> char \<Rightarrow> string \<Rightarrow> string" where
  \<comment> \<open>\<^verbatim>\<open>s.replace(old, new)\<close> for an \<^verbatim>\<open>old\<close> of one character\<close>
  "replace s old new = concat (map (\<lambda>c. if c = old then new else [c]) s)"

definition endswith :: "string \<Rightarrow> string \<Rightarrow> bool" where
  \<comment> \<open>\<^verbatim>\<open>s.endswith(suffix)\<close>\<close>
  "endswith s suf = (length suf \<le> length s \<and> drop (length s - length suf) s = suf)"

section \<open>Errors\<close>

text \<open>
  Every exception the program raises is a value of \<open>error\<close>. The program's messages are
  fixed Russian prefixes followed by the data of the failure; a constructor stands for the
  exception class together with the prefix, and its arguments are the data.
\<close>

datatype cause =
    BadStatus int     \<comment> \<open>\<^verbatim>\<open>Exception(f"HTTP ...: {response.status}")\<close>, raised inside the \<^verbatim>\<open>try\<close>\<close>
  | Other string      \<comment> \<open>any other exception, by its description\<close>

datatype error =
    ValueError_no_colon        \<comment> \<open>\<^verbatim>\<open>ValueError\<close>: the package name has no \<^verbatim>\<open>:\<close>\<close>
  | ValueError_unpack          \<comment> \<open>\<^verbatim>\<open>ValueError\<close> of unpacking a list that has not two items\<close>
  | HTTP_failure int string    \<comment> \<open>\<^verbatim>\<open>Exception(f"...: HTTP {e.code} - {e.reason}")\<close>\<close>
  | URL_failure string         \<comment> \<open>\<^verbatim>\<open>Exception(f"...URL: {e.reason}")\<close>\<close>
  | Download_failure cause     \<comment> \<open>\<^verbatim>\<open>Exception(f"...: {e}")\<close> of the last handler of the download\<close>
  | POM_parse_failure string   \<comment> \<open>\<^verbatim>\<open>Exception(f"... POM XML: {e}")\<close> for \<^verbatim>\<open>ET.ParseError\<close>\<close>
  | POM_extract_failure string \<comment> \<open>\<^verbatim>\<open>Exception(f"...: {e}")\<close> of the last handler of the parser\<close>

section \<open>The coordinate parser\<close>

definition parse_package_name :: "string \<Rightarrow> error + string \<times> string" where
  "parse_package_name package =
     (if CHR '':'' \<notin> set package then Inl ValueError_no_colon
      else (case split package (CHR '':'') 1 of
              [group_id, artifact_id] \<Rightarrow> Inr (strip group_id, strip artifact_id)
            | _ \<Rightarrow> Inl ValueError_unpack))"

text \<open>
  The original with the whitespace around each of its segments removed, as the
  specification words the result of parsing and joining again: every \<^verbatim>\<open>:\<close> separates two
  segments, each segment is stripped, and the segments are joined with \<^verbatim>\<open>:\<close>.
\<close>

fun split_all :: "string \<Rightarrow> char \<Rightarrow> string list" where
  \<comment> \<open>\<^verbatim>\<open>s.split(sep)\<close>: every occurrence of the separator splits\<close>
  "split_all [] sep = [[]]"
| "split_all (c # cs) sep =
     (if c = sep then [] # split_all cs sep
      else (case split_all cs sep of
              w # ws \<Rightarrow> (c # w) # ws
            | [] \<Rightarrow> [[c]]))"

definition trim_segments :: "string \<Rightarrow> string" where
  "trim_segments s = join '':'' (map strip (split_all s (CHR '':'')))"

section \<open>The repository URL builder\<close>

definition construct_pom_url :: "string \<Rightarrow> string \<Rightarrow> string \<Rightarrow> string \<Rightarrow> string" where
  "construct_pom_url group_id artifact_id vers repository =
     (let group_path = replace group_id (CHR ''.'') ''/'';
          pom_filename = artifact_id @ ''-'' @ vers @ ''.pom'';
          repository' = (if endswith repository ''/'' then butlast repository else repository)
      in repository' @ ''/'' @ group_path @ ''/'' @ artifact_id @ ''/'' @ vers @ ''/''
           @ pom_filename)"

text \<open>
  The address as the specification words it: the root with one trailing \<^verbatim>\<open>/\<close> removed if
  there is one, the group identifier with every \<^verbatim>\<open>.\<close> turned into \<^verbatim>\<open>/\<close>, and the five
  parts \<^verbatim>\<open><root>/<groupPath>/<artifactId>/<version>/<artifactId>-<version>.pom\<close>.
\<close>

definition root_spec :: "string \<Rightarrow> string" where
  "root_spec repository =
     (case rev repository of
        [] \<Rightarrow> repository
      | c # cs \<Rightarrow> if c = CHR ''/'' then rev cs else repository)"

definition group_path_spec :: "string \<Rightarrow> string" where
  "group_path_spec group_id = map (\<lambda>c. if c = CHR ''.'' then CHR ''/'' else c) group_id"

definition pom_url_spec :: "string \<Rightarrow> string \<Rightarrow> string \<Rightarrow> string \<Rightarrow> string" where
  "pom_url_spec group_id artifact_id vers repository =
     join ''/'' [root_spec repository, group_path_spec group_id, artifact_id, vers,
                 artifact_id @ ''-'' @ vers @ ''.pom'']"

section \<open>The manifest fetcher\<close>

text \<open>
  \<^verbatim>\<open>urllib.request.urlopen\<close> is the network: the model takes it as a parameter, a function
  from the request's address to what building and sending the request does. Redirects are
  followed inside it, so the response is the last one. With the default opener a response
  outside 200..299 is raised as \<^verbatim>\<open>HTTPError\<close>; the fetcher also tests the status of a
  response that is returned. The body of a response is the outcome of
  \<^verbatim>\<open>response.read().decode('utf-8')\<close>: the text, or the description of the exception it
  raises.
\<close>

datatype urlopen_outcome =
    Response int "string + string"  \<comment> \<open>a response object: its status and its decoded body\<close>
  | HTTPError int string            \<comment> \<open>\<^verbatim>\<open>urllib.error.HTTPError\<close>: code and reason\<close>
  | URLError string                 \<comment> \<open>\<^verbatim>\<open>urllib.error.URLError\<close>: reason\<close>
  | Raised string                   \<comment> \<open>any other exception (a timeout, a bad address)\<close>

definition download_pom_file :: "(string \<Rightarrow> urlopen_outcome) \<Rightarrow> string \<Rightarrow> error + string" where
  "download_pom_file urlopen pom_url =
     (case urlopen pom_url of
        Response status body \<Rightarrow>
          if status = 200
          then (case body of
                  Inr content \<Rightarrow> Inr content
                | Inl e \<Rightarrow> Inl (Download_failure (Other e)))
          else Inl (Download_failure (BadStatus status))
      | HTTPError code reason \<Rightarrow> Inl (HTTP_failure code reason)
      | URLError reason \<Rightarrow> Inl (URL_failure reason)
      | Raised e \<Rightarrow> Inl (Download_failure (Other e)))"

fun response_status :: "urlopen_outcome \<Rightarrow> int option" where
  \<comment> \<open>the status code of the HTTP response behind an outcome, when there was a response\<close>
  "response_status (Response status body) = Some status"
| "response_status (HTTPError code reason) = Some code"
| "response_status (URLError reason) = None"
| "response_status (Raised e) = None"

fun preserved_status :: "error \<Rightarrow> int option" where
  \<comment> \<open>the status code an error's message carries\<close>
  "preserved_status (HTTP_failure code reason) = Some code"
| "preserved_status (Download_failure (BadStatus status)) = Some status"
| "preserved_status e = None"

section \<open>The manifest parser\<close>

subsection \<open>Element trees\<close>

text \<open>
  An \<^verbatim>\<open>xml.etree.ElementTree.Element\<close>: its tag (a namespace-qualified name is the string
  \<^verbatim>\<open>{uri}local\<close>), its text (\<^verbatim>\<open>None\<close> when the element has no character data before its
  first child) and its child elements in document order. The attributes and the tail are
  never read by the program.
\<close>

datatype element = Element (tag: string) (text_of: "string option") (children: "element list")

fun iter :: "element \<Rightarrow> element list" where
  \<comment> \<open>\<^verbatim>\<open>elem.iter()\<close>: the element and all its descendants, in document order\<close>
  "iter (Element t x cs) = Element t x cs # concat (map iter cs)"

definition descendants :: "element \<Rightarrow> element list" where
  \<comment> \<open>what \<^verbatim>\<open>elem.iter()\<close> yields after \<^verbatim>\<open>elem\<close> itself: the proper descendants, in
      document order\<close>
  "descendants elem = concat (map iter (children elem))"

datatype path =
    Child string        \<comment> \<open>the path \<^verbatim>\<open>tag\<close>: the children with this tag\<close>
  | Descendant string   \<comment> \<open>the path \<^verbatim>\<open>.//tag\<close>: the proper descendants with this tag\<close>

fun iterfind :: "element \<Rightarrow> path \<Rightarrow> element list" where
  "iterfind elem (Child t) = filter (\<lambda>e. tag e = t) (children elem)"
| "iterfind elem (Descendant t) = filter (\<lambda>e. tag e = t) (descendants elem)"

definition findall :: "element \<Rightarrow> path \<Rightarrow> element list" where
  "findall elem p = iterfind elem p"

definition find :: "element \<Rightarrow> path \<Rightarrow> element option" where
  "find elem p = (case iterfind elem p of [] \<Rightarrow> None | e # _ \<Rightarrow> Some e)"

definition maven :: "string \<Rightarrow> string" where
  \<comment> \<open>the tag that \<^verbatim>\<open>maven:name\<close> stands for under
      \<^verbatim>\<open>ns = {'maven': 'http://maven.apache.org/POM/4.0.0'}\<close>\<close>
  "maven name = ''{http://maven.apache.org/POM/4.0.0}'' @ name"

definition maven_qualified :: "string \<Rightarrow> bool" where
  \<comment> \<open>the tag is a name of the Maven POM namespace\<close>
  "maven_qualified t = (take (length (maven [])) t = maven [])"

subsection \<open>Extracting the dependencies\<close>

record dependency =
  groupId :: "string option"
  artifactId :: "string option"
  version :: "string option"
  scope :: "string option"

definition has_coordinates :: "element \<Rightarrow> bool" where
  \<comment> \<open>the guard of the loop: \<^verbatim>\<open>group_id_elem is not None and artifact_id_elem is not None\<close>\<close>
  "has_coordinates dep_elem =
     (find dep_elem (Child (maven ''groupId'')) \<noteq> None \<and>
      find dep_elem (Child (maven ''artifactId'')) \<noteq> None)"

definition dependency_of :: "element \<Rightarrow> dependency option" where
  \<comment> \<open>the body of the loop: the record it appends for one \<^verbatim>\<open>dep_elem\<close>, if it appends one\<close>
  "dependency_of dep_elem =
     (let group_id_elem = find dep_elem (Child (maven ''groupId''));
          artifact_id_elem = find dep_elem (Child (maven ''artifactId''));
          version_elem = find dep_elem (Child (maven ''version''));
          scope_elem = find dep_elem (Child (maven ''scope''))
      in (case (group_id_elem, artifact_id_elem) of
            (Some g, Some a) \<Rightarrow>
              Some \<lparr> groupId = text_of g,
                     artifactId = text_of a,
                     version = (case version_elem of Some v \<Rightarrow> text_of v | None \<Rightarrow> Some ''N/A''),
                     scope = (case scope_elem of Some s \<Rightarrow> text_of s | None \<Rightarrow> Some ''compile'') \<rparr>
          | _ \<Rightarrow> None))"

fun collect :: "element list \<Rightarrow> dependency list \<Rightarrow> dependency list" where
  \<comment> \<open>the \<^verbatim>\<open>for\<close> loop, appending to \<^verbatim>\<open>dependencies\<close>\<close>
  "collect [] dependencies = dependencies"
| "collect (dep_elem # rest) dependencies =
     collect rest (case dependency_of dep_elem of
                     Some dependency \<Rightarrow> dependencies @ [dependency]
                   | None \<Rightarrow> dependencies)"

text \<open>
  \<^verbatim>\<open>ET.fromstring\<close> is the XML parser of the standard library: the model takes it as a
  parameter. It returns the root element of a well-formed document, raises
  \<^verbatim>\<open>ET.ParseError\<close> with a description of the syntax error otherwise, or fails in another
  way.
\<close>

datatype fromstring_outcome =
    Parsed element
  | ParseError string
  | Failed string

definition parse_dependencies_from_pom ::
    "(string \<Rightarrow> fromstring_outcome) \<Rightarrow> string \<Rightarrow> error + dependency list" where
  "parse_dependencies_from_pom fromstring pom_content =
     (case fromstring pom_content of
        ParseError e \<Rightarrow> Inl (POM_parse_failure e)
      | Failed e \<Rightarrow> Inl (POM_extract_failure e)
      | Parsed root \<Rightarrow>
          (case find root (Descendant (maven ''dependencies'')) of
             None \<Rightarrow> Inr []
           | Some dependencies_elem \<Rightarrow>
               Inr (collect (findall dependencies_elem (Child (maven ''dependency''))) [])))"

section \<open>The pipeline\<close>

text \<open>
  \<^verbatim>\<open>run_stage2\<close> with \<^verbatim>\<open>args['package']\<close>, \<^verbatim>\<open>args['version']\<close> and \<^verbatim>\<open>args['repository']\<close>.
  Its value is what \<^verbatim>\<open>display_dependencies\<close> is called with: the dependencies and the
  package name. An exception of a stage ends the run.
\<close>

definition run_stage2 ::
    "(string \<Rightarrow> urlopen_outcome) \<Rightarrow> (string \<Rightarrow> fromstring_outcome) \<Rightarrow>
     string \<Rightarrow> string \<Rightarrow> string \<Rightarrow> error + dependency list \<times> string" where
  "run_stage2 urlopen fromstring package vers repository =
     (case parse_package_name package of
        Inl e \<Rightarrow> Inl e
      | Inr (group_id, artifact_id) \<Rightarrow>
          (let package_name = group_id @ '':'' @ artifact_id @ '':'' @ vers;
               pom_url = construct_pom_url group_id artifact_id vers repository
           in (case download_pom_file urlopen pom_url of
                 Inl e \<Rightarrow> Inl e
               | Inr pom_content \<Rightarrow>
                   (case parse_dependencies_from_pom fromstring pom_content of
                      Inl e \<Rightarrow> Inl e
                    | Inr dependencies \<Rightarrow> Inr (dependencies, package_name)))))"

section \<open>Example manifests\<close>

text \<open>
  Manifest texts and the element trees \<^verbatim>\<open>ET.fromstring\<close> returns for them. They are the
  concrete inputs at which the theorems below are instantiated.
\<close>

definition junit_pom :: string where
  \<open>junit_pom = ''<project xmlns="http://maven.apache.org/POM/4.0.0"><dependencies><dependency><groupId>junit</groupId><artifactId>junit</artifactId></dependency></dependencies></project>''\<close>

definition junit_dependency :: element where
  "junit_dependency = Element (maven ''dependency'') None
     [Element (maven ''groupId'') (Some ''junit'') [],
      Element (maven ''artifactId'') (Some ''junit'') []]"

definition junit_tree :: element where
  "junit_tree = Element (maven ''project'') None
     [Element (maven ''dependencies'') None [junit_dependency]]"

definition empty_group_pom :: string where
  \<open>empty_group_pom = ''<project xmlns="http://maven.apache.org/POM/4.0.0"><dependencies><dependency><groupId/><artifactId>junit</artifactId></dependency></dependencies></project>''\<close>

definition empty_group_tree :: element where
  "empty_group_tree = Element (maven ''project'') None
     [Element (maven ''dependencies'') None
        [Element (maven ''dependency'') None
           [Element (maven ''groupId'') None [],
            Element (maven ''artifactId'') (Some ''junit'') []]]]"

definition slf4j_dependency :: element where
  "slf4j_dependency = Element (maven ''dependency'') None
     [Element (maven ''groupId'') (Some ''org.slf4j'') [],
      Element (maven ''artifactId'') (Some ''slf4j-api'') [],
      Element (maven ''version'') (Some ''1.7.30'') [],
      Element (maven ''scope'') (Some ''runtime'') []]"

definition orphan_dependency :: element where
  "orphan_dependency = Element (maven ''dependency'') None
     [Element (maven ''artifactId'') (Some ''orphan'') []]"

definition mixed_pom :: string where
  \<open>mixed_pom = ''<project xmlns="http://maven.apache.org/POM/4.0.0"><dependencies><dependency><groupId>org.slf4j</groupId><artifactId>slf4j-api</artifactId><version>1.7.30</version><scope>runtime</scope></dependency><dependency><artifactId>orphan</artifactId></dependency><dependency><groupId>junit</groupId><artifactId>junit</artifactId></dependency></dependencies></project>''\<close>

definition mixed_dependencies :: element where
  "mixed_dependencies = Element (maven ''dependencies'') None
     [slf4j_dependency, orphan_dependency, junit_dependency]"

definition mixed_tree :: element where
  "mixed_tree = Element (maven ''project'') None [mixed_dependencies]"

definition no_dependency_pom :: string where
  \<open>no_dependency_pom = ''<project xmlns="http://maven.apache.org/POM/4.0.0"><dependencies/></project>''\<close>

definition no_dependency_tree :: element where
  "no_dependency_tree = Element (maven ''project'') None
     [Element (maven ''dependencies'') None []]"

definition bare_pom :: string where
  \<open>bare_pom = ''<project xmlns="http://maven.apache.org/POM/4.0.0"/>''\<close>

definition bare_tree :: element where
  "bare_tree = Element (maven ''project'') None []"

definition plain_pom :: string where
  \<open>plain_pom = ''<project><dependencies><dependency><groupId>junit</groupId><artifactId>junit</artifactId></dependency></dependencies></project>''\<close>

definition plain_tree :: element where
  "plain_tree = Element ''project'' None
     [Element ''dependencies'' None
        [Element ''dependency'' None
           [Element ''groupId'' (Some ''junit'') [],
            Element ''artifactId'' (Some ''junit'') []]]]"

definition managed_pom :: string where
  \<open>managed_pom = ''<project xmlns="http://maven.apache.org/POM/4.0.0"><dependencyManagement><dependencies><dependency><groupId>org.slf4j</groupId><artifactId>slf4j-api</artifactId><version>1.7.30</version></dependency></dependencies></dependencyManagement><dependencies><dependency><groupId>junit</groupId><artifactId>junit</artifactId></dependency></dependencies></project>''\<close>

definition managed_dependencies :: element where
  "managed_dependencies = Element (maven ''dependencies'') None
     [Element (maven ''dependency'') None
        [Element (maven ''groupId'') (Some ''org.slf4j'') [],
         Element (maven ''artifactId'') (Some ''slf4j-api'') [],
         Element (maven ''version'') (Some ''1.7.30'') []]]"

definition dependency_management :: element where
  "dependency_management = Element (maven ''dependencyManagement'') None [managed_dependencies]"

definition project_dependencies :: element where
  "project_dependencies = Element (maven ''dependencies'') None [junit_dependency]"

definition managed_tree :: element where
  "managed_tree = Element (maven ''project'') None [dependency_management, project_dependencies]"

section \<open>Properties of the string operations\<close>

lemma endswith_char: "endswith s [c] \<longleftrightarrow> s \<noteq> [] \<and> last s = c"
  by (cases s rule: rev_cases) (simp_all add: endswith_def)

lemma replace_char: "replace s old [new] = map (\<lambda>c. if c = old then new else c) s"
  by (induction s) (simp_all add: replace_def)

lemma takeWhile_sep: "sep \<notin> set g \<Longrightarrow> takeWhile (\<lambda>c. c \<noteq> sep) (g @ sep # a) = g"
  by (induction g) auto

lemma dropWhile_sep: "sep \<notin> set g \<Longrightarrow> dropWhile (\<lambda>c. c \<noteq> sep) (g @ sep # a) = sep # a"
  by (induction g) auto

lemma split_once: "sep \<notin> set g \<Longrightarrow> split (g @ sep # a) sep (Suc 0) = [g, a]"
  by (simp add: takeWhile_sep dropWhile_sep)

lemma split_all_no_sep: "sep \<notin> set s \<Longrightarrow> split_all s sep = [s]"
  by (induction s) auto

lemma split_all_first: "sep \<notin> set g \<Longrightarrow> split_all (g @ sep # a) sep = g # split_all a sep"
  by (induction g) auto

lemma split_all_not_Nil: "split_all s sep \<noteq> []"
  by (induction s) (auto split: list.splits)

lemma join_split_all: "join [sep] (split_all s sep) = s"
proof (induction s)
  case Nil
  show ?case by simp
next
  case (Cons c cs)
  obtain w ws where ws: "split_all cs sep = w # ws"
    using split_all_not_Nil[of cs sep] by (cases "split_all cs sep") auto
  with Cons show ?case by (cases ws) auto
qed

lemma one_separator:
  "count_list s c = 1 \<Longrightarrow> \<exists>g a. s = g @ c # a \<and> c \<notin> set g \<and> c \<notin> set a"
proof (induction s)
  case Nil
  then show ?case by simp
next
  case (Cons x xs)
  show ?case
  proof (cases "x = c")
    case True
    with Cons.prems have "count_list xs c = 0" by simp
    then have "c \<notin> set xs" by (simp add: count_list_0_iff)
    with True have "x # xs = [] @ c # xs \<and> c \<notin> set [] \<and> c \<notin> set xs" by simp
    then show ?thesis by blast
  next
    case False
    with Cons.prems have "count_list xs c = 1" by simp
    from Cons.IH[OF this] obtain g a where "xs = g @ c # a" "c \<notin> set g" "c \<notin> set a"
      by blast
    with False have "x # xs = (x # g) @ c # a \<and> c \<notin> set (x # g) \<and> c \<notin> set a" by auto
    then show ?thesis by blast
  qed
qed

lemma dropWhile_id: "\<forall>c\<in>set w. \<not> P c \<Longrightarrow> dropWhile P w = w"
  by (cases w) auto

lemma strip_id: "\<forall>c\<in>set w. \<not> isspace c \<Longrightarrow> strip w = w"
  by (simp add: strip_def dropWhile_id)

lemma split_all_subset: "w \<in> set (split_all s sep) \<Longrightarrow> set w \<subseteq> set s"
proof (induction s arbitrary: w)
  case Nil
  then show ?case by simp
next
  case (Cons c cs)
  then show ?case
    by (cases "split_all cs sep") (fastforce split: if_splits)+
qed

text \<open>A string without whitespace is its own trimmed form.\<close>

lemma trim_segments_id:
  assumes "\<forall>c\<in>set s. \<not> isspace c"
  shows "trim_segments s = s"
proof -
  have "map strip (split_all s (CHR '':'')) = split_all s (CHR '':'')"
    using assms split_all_subset by (intro map_idI strip_id) blast
  then show ?thesis
    using join_split_all[of "CHR '':''" s] by (simp add: trim_segments_def)
qed

section \<open>Properties of the repository URL builder\<close>

lemma root_spec_eq:
  "(if endswith repository ''/'' then butlast repository else repository) = root_spec repository"
  by (cases repository rule: rev_cases) (simp_all add: endswith_char root_spec_def)

text \<open>
  Claim C2. For every group identifier, artifact identifier, version and repository root
  the builder returns the address the specification describes (\<open>pom_url_spec\<close>: the root
  without one trailing slash, the group identifier with its dots turned into slashes, the
  artifact identifier, the version and the file name, joined by slashes); for
  \<^verbatim>\<open>org.springframework\<close>, \<^verbatim>\<open>spring-core\<close>, \<^verbatim>\<open>5.3.0\<close> and the root
  \<^verbatim>\<open>https://repo1.maven.org/maven2\<close> it returns the address of the specification's first
  scenario.
\<close>

theorem construct_pom_url_layout:
  "construct_pom_url group_id artifact_id vers repository =
     pom_url_spec group_id artifact_id vers repository
   \<and> construct_pom_url ''org.springframework'' ''spring-core'' ''5.3.0''
        ''https://repo1.maven.org/maven2'' =
      ''https://repo1.maven.org/maven2/org/springframework/spring-core/5.3.0/spring-core-5.3.0.pom''"
proof
  show "construct_pom_url group_id artifact_id vers repository =
          pom_url_spec group_id artifact_id vers repository"
    by (simp add: construct_pom_url_def pom_url_spec_def root_spec_eq replace_char
        group_path_spec_def)
  show "construct_pom_url ''org.springframework'' ''spring-core'' ''5.3.0''
          ''https://repo1.maven.org/maven2'' =
        ''https://repo1.maven.org/maven2/org/springframework/spring-core/5.3.0/spring-core-5.3.0.pom''"
    by (simp add: construct_pom_url_def replace_def endswith_def)
qed

text \<open>
  Claim C8 as the specification states it, for every repository root, fails: the builder
  removes one slash only, so a root that ends in two slashes and the same root without its
  last slash give different addresses.
\<close>

theorem construct_pom_url_double_slash:
  "endswith ''https://example.com/repo//'' ''/''
   \<and> butlast ''https://example.com/repo//'' = ''https://example.com/repo/''
   \<and> construct_pom_url ''junit'' ''junit'' ''4.13'' ''https://example.com/repo//'' =
     ''https://example.com/repo//junit/junit/4.13/junit-4.13.pom''
   \<and> construct_pom_url ''junit'' ''junit'' ''4.13'' ''https://example.com/repo/'' =
     ''https://example.com/repo/junit/junit/4.13/junit-4.13.pom''
   \<and> construct_pom_url ''junit'' ''junit'' ''4.13'' ''https://example.com/repo//'' \<noteq>
     construct_pom_url ''junit'' ''junit'' ''4.13'' ''https://example.com/repo/''"
  by (simp add: construct_pom_url_def replace_def endswith_def)

text \<open>
  Claim C8, amended. The builder is a function of its four arguments (equal arguments give
  equal addresses), and for every root that does not itself end in a slash, the root
  followed by a trailing slash gives the same address as the root without it.
\<close>

theorem construct_pom_url_trailing_slash:
  assumes "\<not> endswith repository ''/''"
  shows "construct_pom_url group_id artifact_id vers (repository @ ''/'') =
           construct_pom_url group_id artifact_id vers repository
         \<and> (\<forall>group_id' artifact_id' vers' repository'.
               group_id' = group_id \<and> artifact_id' = artifact_id \<and> vers' = vers \<and>
               repository' = repository \<longrightarrow>
               construct_pom_url group_id' artifact_id' vers' repository' =
                 construct_pom_url group_id artifact_id vers repository)"
  using assms by (auto simp add: construct_pom_url_def endswith_char)

text \<open>The second scenario of the specification, the root \<^verbatim>\<open>https://example.com/repo\<close>.\<close>

theorem construct_pom_url_trailing_slash_witness:
  "\<not> endswith ''https://example.com/repo'' ''/''
   \<and> construct_pom_url ''junit'' ''junit'' ''4.13'' ''https://example.com/repo/'' =
     construct_pom_url ''junit'' ''junit'' ''4.13'' ''https://example.com/repo''
   \<and> construct_pom_url ''junit'' ''junit'' ''4.13'' ''https://example.com/repo/'' =
     ''https://example.com/repo/junit/junit/4.13/junit-4.13.pom''"
proof -
  have h: "\<not> endswith ''https://example.com/repo'' ''/''"
    by (simp add: endswith_def)
  from construct_pom_url_trailing_slash[OF h, of "''junit''" "''junit''" "''4.13''"]
  have "construct_pom_url ''junit'' ''junit'' ''4.13'' (''https://example.com/repo'' @ ''/'') =
          construct_pom_url ''junit'' ''junit'' ''4.13'' ''https://example.com/repo''"
    by blast
  moreover have "construct_pom_url ''junit'' ''junit'' ''4.13'' ''https://example.com/repo'' =
      ''https://example.com/repo/junit/junit/4.13/junit-4.13.pom''"
    by (simp add: construct_pom_url_def replace_def endswith_def)
  ultimately show ?thesis using h by simp
qed

section \<open>Properties of the coordinate parser\<close>

text \<open>
  Claim C7. For every string with exactly one \<^verbatim>\<open>:\<close> the parser succeeds, and joining the two
  parts it returns with \<^verbatim>\<open>:\<close> gives the original with the whitespace around each segment
  removed (\<open>trim_segments\<close>).
\<close>

theorem parse_package_name_rejoin:
  assumes "count_list package (CHR '':'') = 1"
  shows "\<exists>group_id artifact_id.
           parse_package_name package = Inr (group_id, artifact_id) \<and>
           join '':'' [group_id, artifact_id] = trim_segments package"
proof -
  from one_separator[OF assms] obtain g a
    where s: "package = g @ CHR '':'' # a" and g: "CHR '':'' \<notin> set g" and a: "CHR '':'' \<notin> set a"
    by blast
  have "parse_package_name package = Inr (strip g, strip a)"
    using g by (simp add: parse_package_name_def s split_once del: split.simps)
  moreover have "trim_segments package = strip g @ '':'' @ strip a"
    using g a by (simp add: trim_segments_def s split_all_first split_all_no_sep)
  ultimately show ?thesis by simp
qed

text \<open>A coordinate with whitespace at both ends and around the separator.\<close>

theorem parse_package_name_rejoin_witness:
  "count_list '' org.springframework : spring-core '' (CHR '':'') = 1
   \<and> (\<exists>group_id artifact_id.
         parse_package_name '' org.springframework : spring-core '' = Inr (group_id, artifact_id) \<and>
         join '':'' [group_id, artifact_id] = ''org.springframework:spring-core'')"
proof -
  have h: "count_list '' org.springframework : spring-core '' (CHR '':'') = 1"
    by simp
  have t: "trim_segments '' org.springframework : spring-core '' = ''org.springframework:spring-core''"
    by (simp add: trim_segments_def strip_def isspace_def)
  from parse_package_name_rejoin[OF h] t h show ?thesis by simp
qed

section \<open>Properties of the manifest fetcher\<close>

lemma download_failure_status:
  assumes "response_status (urlopen pom_url) = Some status" and "status \<noteq> 200"
  shows "\<exists>e. download_pom_file urlopen pom_url = Inl e \<and> preserved_status e = Some status"
  using assms by (cases "urlopen pom_url") (simp_all add: download_pom_file_def)

lemma download_success_status:
  assumes "download_pom_file urlopen pom_url = Inr content"
  shows "urlopen pom_url = Response 200 (Inr content)"
  using assms
  by (cases "urlopen pom_url") (auto simp: download_pom_file_def split: if_splits sum.splits)

text \<open>
  Claim C3. When the response has a status outside 200..299, the fetcher fails with an
  error that carries that status, whether \<^verbatim>\<open>urlopen\<close> raised the response as an
  \<^verbatim>\<open>HTTPError\<close> or returned it; the fetcher returns content only for a response of status
  200; and a run of the pipeline whose download meets such a response ends with that error,
  so no dependency list is produced.
\<close>

theorem download_pom_file_status:
  "(\<forall>status. response_status (urlopen pom_url) = Some status \<and>
             \<not> (200 \<le> status \<and> status < 300) \<longrightarrow>
      (\<exists>e. download_pom_file urlopen pom_url = Inl e \<and> preserved_status e = Some status))
   \<and> (\<forall>content. download_pom_file urlopen pom_url = Inr content \<longrightarrow>
         response_status (urlopen pom_url) = Some 200)
   \<and> (\<forall>group_id artifact_id status.
         parse_package_name package = Inr (group_id, artifact_id) \<and>
         response_status (urlopen (construct_pom_url group_id artifact_id vers repository)) =
           Some status \<and>
         \<not> (200 \<le> status \<and> status < 300) \<longrightarrow>
         (\<exists>e. run_stage2 urlopen fromstring package vers repository = Inl e \<and>
              preserved_status e = Some status))"
proof (intro conjI allI impI)
  fix status
  assume "response_status (urlopen pom_url) = Some status \<and> \<not> (200 \<le> status \<and> status < 300)"
  then have "response_status (urlopen pom_url) = Some status" and "status \<noteq> 200" by auto
  then show "\<exists>e. download_pom_file urlopen pom_url = Inl e \<and> preserved_status e = Some status"
    by (rule download_failure_status)
next
  fix content
  assume "download_pom_file urlopen pom_url = Inr content"
  then show "response_status (urlopen pom_url) = Some 200"
    by (simp add: download_success_status)
next
  fix group_id artifact_id status
  assume a: "parse_package_name package = Inr (group_id, artifact_id) \<and>
         response_status (urlopen (construct_pom_url group_id artifact_id vers repository)) =
           Some status \<and>
         \<not> (200 \<le> status \<and> status < 300)"
  then have "response_status (urlopen (construct_pom_url group_id artifact_id vers repository)) =
      Some status" and "status \<noteq> 200" by auto
  from download_failure_status[of urlopen
      "construct_pom_url group_id artifact_id vers repository" status, OF this] obtain e
    where "download_pom_file urlopen (construct_pom_url group_id artifact_id vers repository) = Inl e"
      and "preserved_status e = Some status" by blast
  with a show "\<exists>e. run_stage2 urlopen fromstring package vers repository = Inl e \<and>
              preserved_status e = Some status"
    by (simp add: run_stage2_def)
qed

text \<open>
  The fifth scenario of the specification, a response 404, beside a response 200 that
  delivers a manifest.
\<close>

theorem download_pom_file_status_witness:
  "download_pom_file (\<lambda>url. HTTPError 404 ''Not Found'')
       ''https://repo1.maven.org/maven2/junit/junit/0.0/junit-0.0.pom'' =
     Inl (HTTP_failure 404 ''Not Found'')
   \<and> preserved_status (HTTP_failure 404 ''Not Found'') = Some 404
   \<and> download_pom_file (\<lambda>url. Response 200 (Inr junit_pom))
       ''https://repo1.maven.org/maven2/junit/junit/4.13/junit-4.13.pom'' = Inr junit_pom
   \<and> run_stage2 (\<lambda>url. HTTPError 404 ''Not Found'') (\<lambda>text. Parsed junit_tree)
       ''junit:junit'' ''0.0'' ''https://repo1.maven.org/maven2'' =
     Inl (HTTP_failure 404 ''Not Found'')"
proof -
  let ?not_found = "\<lambda>url::string. HTTPError 404 ''Not Found''"
  let ?found = "\<lambda>url::string. Response 200 (Inr junit_pom)"
  let ?u0 = "''https://repo1.maven.org/maven2/junit/junit/0.0/junit-0.0.pom''"
  let ?u1 = "''https://repo1.maven.org/maven2/junit/junit/4.13/junit-4.13.pom''"
  have p: "parse_package_name ''junit:junit'' = Inr (''junit'', ''junit'')"
    by (simp add: parse_package_name_def strip_def isspace_def)
  have d1: "\<exists>e. download_pom_file ?not_found ?u0 = Inl e \<and> preserved_status e = Some 404"
    using download_pom_file_status[of ?not_found ?u0] by simp
  have d2: "response_status (?found ?u1) = Some 200"
    using download_pom_file_status[of ?found ?u1] by (simp add: download_pom_file_def)
  have d3: "\<exists>e. run_stage2 ?not_found (\<lambda>text. Parsed junit_tree) ''junit:junit'' ''0.0''
                ''https://repo1.maven.org/maven2'' = Inl e \<and> preserved_status e = Some 404"
    using download_pom_file_status[of ?not_found _ "''junit:junit''" "''0.0''"
        "''https://repo1.maven.org/maven2''"] p by simp
  from d1 d2 d3 show ?thesis
    by (simp add: download_pom_file_def run_stage2_def p)
qed

section \<open>Properties of the manifest parser\<close>

subsection \<open>Lookups in an element tree\<close>

lemma find_None: "find e p = None \<longleftrightarrow> iterfind e p = []"
  by (simp add: find_def split: list.splits)

lemma find_Child_None: "find e (Child t) = None \<longleftrightarrow> t \<notin> tag ` set (children e)"
  by (auto simp: find_None filter_empty_conv)

lemma find_Child_Some: "t \<in> tag ` set (children e) \<Longrightarrow> \<exists>c. find e (Child t) = Some c"
  using find_Child_None[of e t] by (cases "find e (Child t)") auto

lemma find_Some_mem: "find e p = Some c \<Longrightarrow> c \<in> set (iterfind e p)"
  by (cases "iterfind e p") (simp_all add: find_def)

lemma find_Child_tag: "find e (Child t) = Some c \<Longrightarrow> tag c = t \<and> c \<in> set (children e)"
  using find_Some_mem[of e "Child t" c] by simp

lemma filter_first:
  assumes "xs = pre @ d # post" and "P d" and "\<forall>e\<in>set pre. \<not> P e"
  shows "filter P xs = d # filter P post"
  using assms by (simp add: filter_empty_conv)

lemma find_Descendant_first:
  assumes "descendants root = pre @ d # post" and "tag d = t" and "\<forall>e\<in>set pre. tag e \<noteq> t"
  shows "find root (Descendant t) = Some d"
  using assms filter_first[of "descendants root" pre d post "\<lambda>e. tag e = t"]
  by (simp add: find_def)

lemma find_Descendant_None:
  assumes "\<forall>e\<in>set (descendants root). tag e \<noteq> t"
  shows "find root (Descendant t) = None"
  using assms by (simp add: find_None filter_empty_conv)

lemma descendants_subset_iter: "set (descendants e) \<subseteq> set (iter e)"
  by (cases e) (auto simp: descendants_def)

lemma maven_qualified_maven: "maven_qualified (maven name)"
  by (simp add: maven_qualified_def maven_def)

subsection \<open>The loop\<close>

lemma collect_map_filter: "collect es acc = acc @ List.map_filter dependency_of es"
  by (induction es arbitrary: acc) (simp_all split: option.splits)

lemma dependency_of_None: "dependency_of e = None \<longleftrightarrow> \<not> has_coordinates e"
  by (auto simp: dependency_of_def has_coordinates_def split: option.splits)

lemma dependency_of_Some:
  assumes "dependency_of e = Some r"
  shows "\<exists>g a. find e (Child (maven ''groupId'')) = Some g \<and>
               find e (Child (maven ''artifactId'')) = Some a \<and>
               groupId r = text_of g \<and> artifactId r = text_of a"
  using assms by (auto simp: dependency_of_def split: option.splits)

lemma length_map_filter: "length (List.map_filter f xs) = length (filter (\<lambda>x. f x \<noteq> None) xs)"
  by (induction xs) (auto split: option.splits)

lemma set_map_filter: "r \<in> set (List.map_filter f xs) \<longleftrightarrow> (\<exists>x\<in>set xs. f x = Some r)"
  by (induction xs) (auto split: option.splits)

lemma parse_located:
  assumes "fromstring pom_content = Parsed root"
    and "find root (Descendant (maven ''dependencies'')) = Some d"
  shows "parse_dependencies_from_pom fromstring pom_content =
           Inr (List.map_filter dependency_of (findall d (Child (maven ''dependency''))))"
  using assms by (simp add: parse_dependencies_from_pom_def collect_map_filter)

lemma parse_not_located:
  assumes "fromstring pom_content = Parsed root"
    and "find root (Descendant (maven ''dependencies'')) = None"
  shows "parse_dependencies_from_pom fromstring pom_content = Inr []"
  using assms by (simp add: parse_dependencies_from_pom_def)

lemmas tree_simps =
  find_def findall_def descendants_def dependency_of_def has_coordinates_def maven_def

subsection \<open>Records and the elements they come from\<close>

text \<open>
  Claim C1 as the specification states it fails: for a dependency element whose
  \<^verbatim>\<open>groupId\<close> element is present but empty the parser emits a record whose group
  identifier is absent.
\<close>

theorem empty_group_record_emitted:
  "parse_dependencies_from_pom (\<lambda>text. Parsed empty_group_tree) empty_group_pom =
     Inr [\<lparr>groupId = None, artifactId = Some ''junit'',
            version = Some ''N/A'', scope = Some ''compile''\<rparr>]"
  by (simp add: parse_dependencies_from_pom_def empty_group_tree_def tree_simps)

text \<open>
  Claim C1, amended. When the parser locates a dependency list in a well-formed manifest,
  it returns as many records as the list has dependency elements with both a
  \<^verbatim>\<open>groupId\<close> and an \<^verbatim>\<open>artifactId\<close> child element: an element lacking either child is
  left out. Every record comes from such an element, and its group and artifact
  identifiers are the texts of the first \<^verbatim>\<open>groupId\<close> and \<^verbatim>\<open>artifactId\<close> children, which
  are absent when those children are empty.
\<close>

theorem parse_dependencies_complete_elements:
  assumes "fromstring pom_content = Parsed root"
    and "find root (Descendant (maven ''dependencies'')) = Some dependencies_elem"
  shows "\<exists>dependencies.
           parse_dependencies_from_pom fromstring pom_content = Inr dependencies \<and>
           length dependencies =
             length (filter has_coordinates
                       (findall dependencies_elem (Child (maven ''dependency'')))) \<and>
           (\<forall>r\<in>set dependencies.
              \<exists>dep_elem\<in>set (findall dependencies_elem (Child (maven ''dependency''))).
              \<exists>group_id_elem artifact_id_elem.
                find dep_elem (Child (maven ''groupId'')) = Some group_id_elem \<and>
                find dep_elem (Child (maven ''artifactId'')) = Some artifact_id_elem \<and>
                groupId r = text_of group_id_elem \<and>
                artifactId r = text_of artifact_id_elem)"
proof -
  let ?es = "findall dependencies_elem (Child (maven ''dependency''))"
  let ?deps = "List.map_filter dependency_of ?es"
  have res: "parse_dependencies_from_pom fromstring pom_content = Inr ?deps"
    using assms by (rule parse_located)
  have len: "length ?deps = length (filter has_coordinates ?es)"
    by (simp add: length_map_filter dependency_of_None)
  have mem: "\<forall>r\<in>set ?deps. \<exists>e\<in>set ?es. \<exists>g a.
               find e (Child (maven ''groupId'')) = Some g \<and>
               find e (Child (maven ''artifactId'')) = Some a \<and>
               groupId r = text_of g \<and> artifactId r = text_of a"
    using dependency_of_Some by (fastforce simp: set_map_filter)
  from res len mem show ?thesis by blast
qed

text \<open>A manifest with three dependency elements, the second without a \<^verbatim>\<open>groupId\<close>.\<close>

theorem parse_dependencies_complete_elements_witness:
  "find mixed_tree (Descendant (maven ''dependencies'')) = Some mixed_dependencies
   \<and> findall mixed_dependencies (Child (maven ''dependency'')) =
       [slf4j_dependency, orphan_dependency, junit_dependency]
   \<and> filter has_coordinates [slf4j_dependency, orphan_dependency, junit_dependency] =
       [slf4j_dependency, junit_dependency]
   \<and> (\<exists>dependencies.
         parse_dependencies_from_pom (\<lambda>text. Parsed mixed_tree) mixed_pom = Inr dependencies \<and>
         length dependencies = 2)"
proof -
  have f: "find mixed_tree (Descendant (maven ''dependencies'')) = Some mixed_dependencies"
    by (simp add: mixed_tree_def mixed_dependencies_def tree_simps)
  have a: "findall mixed_dependencies (Child (maven ''dependency'')) =
       [slf4j_dependency, orphan_dependency, junit_dependency]"
    by (simp add: mixed_dependencies_def slf4j_dependency_def orphan_dependency_def
        junit_dependency_def tree_simps)
  have c: "filter has_coordinates [slf4j_dependency, orphan_dependency, junit_dependency] =
       [slf4j_dependency, junit_dependency]"
    by (simp add: slf4j_dependency_def orphan_dependency_def junit_dependency_def tree_simps)
  have l: "length (filter has_coordinates
                     (findall mixed_dependencies (Child (maven ''dependency'')))) = 2"
    unfolding a c by simp
  from parse_dependencies_complete_elements[of "\<lambda>text. Parsed mixed_tree" mixed_pom, OF _ f]
  have "\<exists>dependencies.
         parse_dependencies_from_pom (\<lambda>text. Parsed mixed_tree) mixed_pom = Inr dependencies \<and>
         length dependencies = 2"
    unfolding l by blast
  with f a c show ?thesis by simp
qed


subsection \<open>Manifests without dependencies\<close>

text \<open>
  Claim C4. For a well-formed manifest that has no dependency-list element, or whose
  dependency-list element has no dependency element, the parser returns the empty list
  and does not fail.
\<close>

theorem parse_dependencies_none_declared:
  assumes "fromstring pom_content = Parsed root"
    and "(\<forall>e\<in>set (descendants root). tag e \<noteq> maven ''dependencies'') \<or>
         (\<exists>dependencies_elem.
            find root (Descendant (maven ''dependencies'')) = Some dependencies_elem \<and>
            (\<forall>c\<in>set (children dependencies_elem). tag c \<noteq> maven ''dependency''))"
  shows "parse_dependencies_from_pom fromstring pom_content = Inr []"
  using assms(2)
proof
  assume "\<forall>e\<in>set (descendants root). tag e \<noteq> maven ''dependencies''"
  then have "find root (Descendant (maven ''dependencies'')) = None"
    by (rule find_Descendant_None)
  with assms(1) show ?thesis by (rule parse_not_located)
next
  assume "\<exists>dependencies_elem.
            find root (Descendant (maven ''dependencies'')) = Some dependencies_elem \<and>
            (\<forall>c\<in>set (children dependencies_elem). tag c \<noteq> maven ''dependency'')"
  then obtain d where d: "find root (Descendant (maven ''dependencies'')) = Some d"
    and none: "\<forall>c\<in>set (children d). tag c \<noteq> maven ''dependency''" by blast
  from none have "findall d (Child (maven ''dependency'')) = []"
    by (simp add: findall_def filter_empty_conv)
  with parse_located[of fromstring pom_content, OF assms(1) d] show ?thesis by simp
qed

text \<open>A manifest with an empty dependency list, and a manifest with none.\<close>

theorem parse_dependencies_none_declared_witness:
  "parse_dependencies_from_pom (\<lambda>text. Parsed no_dependency_tree) no_dependency_pom = Inr []
   \<and> parse_dependencies_from_pom (\<lambda>text. Parsed bare_tree) bare_pom = Inr []"
proof -
  have "find no_dependency_tree (Descendant (maven ''dependencies'')) =
          Some (Element (maven ''dependencies'') None [])"
    by (simp add: no_dependency_tree_def tree_simps)
  then have 1: "parse_dependencies_from_pom (\<lambda>text. Parsed no_dependency_tree)
      no_dependency_pom = Inr []"
    by (intro parse_dependencies_none_declared[where root = no_dependency_tree]) simp_all
  have 2: "parse_dependencies_from_pom (\<lambda>text. Parsed bare_tree) bare_pom = Inr []"
    by (intro parse_dependencies_none_declared[where root = bare_tree])
      (simp_all add: descendants_def bare_tree_def)
  from 1 2 show ?thesis by simp
qed

subsection \<open>Defaults\<close>

text \<open>
  Claim C5. A dependency element of the located list that has a \<^verbatim>\<open>groupId\<close> and an
  \<^verbatim>\<open>artifactId\<close> child yields a record of the output; when the element has no
  \<^verbatim>\<open>version\<close> child the record's version is \<^verbatim>\<open>N/A\<close>, and when it has no \<^verbatim>\<open>scope\<close>
  child the record's scope is \<^verbatim>\<open>compile\<close>.
\<close>

theorem parse_dependencies_defaults:
  assumes "fromstring pom_content = Parsed root"
    and "find root (Descendant (maven ''dependencies'')) = Some dependencies_elem"
    and "dep_elem \<in> set (children dependencies_elem)"
    and "tag dep_elem = maven ''dependency''"
    and "maven ''groupId'' \<in> tag ` set (children dep_elem)"
    and "maven ''artifactId'' \<in> tag ` set (children dep_elem)"
  shows "\<exists>dependencies r.
           parse_dependencies_from_pom fromstring pom_content = Inr dependencies \<and>
           dependency_of dep_elem = Some r \<and> r \<in> set dependencies \<and>
           (maven ''version'' \<notin> tag ` set (children dep_elem) \<longrightarrow> version r = Some ''N/A'') \<and>
           (maven ''scope'' \<notin> tag ` set (children dep_elem) \<longrightarrow> scope r = Some ''compile'')"
proof -
  let ?es = "findall dependencies_elem (Child (maven ''dependency''))"
  from assms(5) obtain g where g: "find dep_elem (Child (maven ''groupId'')) = Some g"
    using find_Child_Some by blast
  from assms(6) obtain a where a: "find dep_elem (Child (maven ''artifactId'')) = Some a"
    using find_Child_Some by blast
  define r where "r = \<lparr> groupId = text_of g, artifactId = text_of a,
      version = (case find dep_elem (Child (maven ''version'')) of
                   Some v \<Rightarrow> text_of v | None \<Rightarrow> Some ''N/A''),
      scope = (case find dep_elem (Child (maven ''scope'')) of
                 Some s \<Rightarrow> text_of s | None \<Rightarrow> Some ''compile'') \<rparr>"
  have r: "dependency_of dep_elem = Some r"
    by (simp add: dependency_of_def g a r_def)
  have "dep_elem \<in> set ?es"
    using assms(3,4) by (simp add: findall_def)
  with r have mem: "r \<in> set (List.map_filter dependency_of ?es)"
    by (auto simp: set_map_filter)
  have v: "maven ''version'' \<notin> tag ` set (children dep_elem) \<longrightarrow> version r = Some ''N/A''"
    by (simp add: r_def find_Child_None[symmetric])
  have s: "maven ''scope'' \<notin> tag ` set (children dep_elem) \<longrightarrow> scope r = Some ''compile''"
    by (simp add: r_def find_Child_None[symmetric])
  from parse_located[of fromstring pom_content, OF assms(1,2)] r mem v s show ?thesis by blast
qed

text \<open>The third scenario of the specification.\<close>

theorem parse_dependencies_defaults_witness:
  "dependency_of junit_dependency =
     Some \<lparr>groupId = Some ''junit'', artifactId = Some ''junit'',
           version = Some ''N/A'', scope = Some ''compile''\<rparr>
   \<and> parse_dependencies_from_pom (\<lambda>text. Parsed junit_tree) junit_pom =
     Inr [\<lparr>groupId = Some ''junit'', artifactId = Some ''junit'',
            version = Some ''N/A'', scope = Some ''compile''\<rparr>]"
proof -
  let ?d = "Element (maven ''dependencies'') None [junit_dependency]"
  have f: "find junit_tree (Descendant (maven ''dependencies'')) = Some ?d"
    by (simp add: junit_tree_def junit_dependency_def tree_simps)
  have c: "tag ` set (children junit_dependency) = {maven ''groupId'', maven ''artifactId''}"
    by (simp add: junit_dependency_def)
  have t: "tag junit_dependency = maven ''dependency''"
    by (simp add: junit_dependency_def)
  have n: "maven ''version'' \<notin> tag ` set (children junit_dependency)"
      "maven ''scope'' \<notin> tag ` set (children junit_dependency)"
    by (simp_all add: c maven_def)
  from parse_dependencies_defaults[of "\<lambda>text. Parsed junit_tree" junit_pom junit_tree ?d
      junit_dependency] f c t n
  obtain dependencies r where
    "parse_dependencies_from_pom (\<lambda>text. Parsed junit_tree) junit_pom = Inr dependencies"
    "dependency_of junit_dependency = Some r" "r \<in> set dependencies"
    "version r = Some ''N/A''" "scope r = Some ''compile''"
    by auto
  then show ?thesis
    by (simp add: parse_dependencies_from_pom_def junit_tree_def junit_dependency_def tree_simps)
qed


subsection \<open>Malformed input\<close>

text \<open>
  Claim C6. When the text is not well-formed XML, that is when \<^verbatim>\<open>ET.fromstring\<close> raises
  \<^verbatim>\<open>ParseError\<close>, the parser fails with the parse error that carries the description of
  the syntax error, and returns no dependency list.
\<close>

theorem parse_dependencies_malformed:
  assumes "fromstring pom_content = ParseError description"
  shows "parse_dependencies_from_pom fromstring pom_content = Inl (POM_parse_failure description)
         \<and> (\<forall>dependencies.
               parse_dependencies_from_pom fromstring pom_content \<noteq> Inr dependencies)"
  using assms by (simp add: parse_dependencies_from_pom_def)

text \<open>An unclosed element, with the description the XML parser gives for it.\<close>

theorem parse_dependencies_malformed_witness:
  "parse_dependencies_from_pom (\<lambda>text. ParseError ''no element found: line 1, column 9'')
     ''<project>'' = Inl (POM_parse_failure ''no element found: line 1, column 9'')"
  using parse_dependencies_malformed[of
      "\<lambda>text. ParseError ''no element found: line 1, column 9''" "''<project>''"
      "''no element found: line 1, column 9''"]
  by simp

subsection \<open>Namespaces\<close>

text \<open>
  Claim C9. For a well-formed manifest none of whose elements has a name of the Maven POM
  namespace, the parser returns the empty list, whatever the document declares.
\<close>

theorem parse_dependencies_unqualified:
  assumes "fromstring pom_content = Parsed root"
    and "\<forall>e\<in>set (iter root). \<not> maven_qualified (tag e)"
  shows "parse_dependencies_from_pom fromstring pom_content = Inr []"
proof -
  have "\<forall>e\<in>set (descendants root). tag e \<noteq> maven ''dependencies''"
  proof
    fix e
    assume "e \<in> set (descendants root)"
    with descendants_subset_iter have "e \<in> set (iter root)" by blast
    with assms(2) have "\<not> maven_qualified (tag e)" by blast
    then show "tag e \<noteq> maven ''dependencies''"
      using maven_qualified_maven[of "''dependencies''"] by auto
  qed
  then have "find root (Descendant (maven ''dependencies'')) = None"
    by (rule find_Descendant_None)
  with assms(1) show ?thesis by (rule parse_not_located)
qed

text \<open>A manifest without namespace declaration that declares a dependency.\<close>

theorem parse_dependencies_unqualified_witness:
  "map tag (iter plain_tree) =
     [''project'', ''dependencies'', ''dependency'', ''groupId'', ''artifactId'']
   \<and> parse_dependencies_from_pom (\<lambda>text. Parsed plain_tree) plain_pom = Inr []"
proof -
  have tags: "map tag (iter plain_tree) =
     [''project'', ''dependencies'', ''dependency'', ''groupId'', ''artifactId'']"
    by (simp add: plain_tree_def)
  have "\<forall>t\<in>set (map tag (iter plain_tree)). \<not> maven_qualified t"
    unfolding tags by (simp add: maven_qualified_def maven_def)
  then have "\<forall>e\<in>set (iter plain_tree). \<not> maven_qualified (tag e)"
    by simp
  with parse_dependencies_unqualified[of "\<lambda>text. Parsed plain_tree" plain_pom plain_tree]
  have "parse_dependencies_from_pom (\<lambda>text. Parsed plain_tree) plain_pom = Inr []"
    by simp
  with tags show ?thesis by simp
qed

subsection \<open>Which dependency list is read\<close>

text \<open>
  Claim C10. Among the proper descendants of the root in document order, the parser takes
  the first element named \<^verbatim>\<open>dependencies\<close> in the Maven POM namespace, wherever it is
  nested, and its output is built from the direct \<^verbatim>\<open>dependency\<close> children of that one
  element only.
\<close>

theorem parse_dependencies_first_list:
  assumes "fromstring pom_content = Parsed root"
    and "descendants root = before @ dependencies_elem # after"
    and "tag dependencies_elem = maven ''dependencies''"
    and "\<forall>e\<in>set before. tag e \<noteq> maven ''dependencies''"
  shows "parse_dependencies_from_pom fromstring pom_content =
           Inr (List.map_filter dependency_of
                  (filter (\<lambda>c. tag c = maven ''dependency'') (children dependencies_elem)))"
proof -
  from assms(2-4) have "find root (Descendant (maven ''dependencies'')) = Some dependencies_elem"
    by (rule find_Descendant_first)
  from parse_located[of fromstring pom_content, OF assms(1) this] show ?thesis
    by (simp add: findall_def)
qed

text \<open>
  A manifest whose \<^verbatim>\<open>dependencyManagement\<close> section comes before its own dependency
  list: the managed dependency is returned, the project's own is not.
\<close>

theorem parse_dependencies_first_list_witness:
  "descendants managed_tree =
     [dependency_management] @ managed_dependencies # tl (iter managed_dependencies) @
       iter project_dependencies
   \<and> parse_dependencies_from_pom (\<lambda>text. Parsed managed_tree) managed_pom =
     Inr [\<lparr>groupId = Some ''org.slf4j'', artifactId = Some ''slf4j-api'',
            version = Some ''1.7.30'', scope = Some ''compile''\<rparr>]"
proof -
  have d: "descendants managed_tree =
     [dependency_management] @ managed_dependencies # (tl (iter managed_dependencies) @
       iter project_dependencies)"
    by (simp add: managed_tree_def dependency_management_def managed_dependencies_def
        descendants_def)
  have t: "tag managed_dependencies = maven ''dependencies''"
    by (simp add: managed_dependencies_def)
  have b: "\<forall>e\<in>set [dependency_management]. tag e \<noteq> maven ''dependencies''"
    by (simp add: dependency_management_def maven_def)
  have r: "List.map_filter dependency_of
             (filter (\<lambda>c. tag c = maven ''dependency'') (children managed_dependencies)) =
           [\<lparr>groupId = Some ''org.slf4j'', artifactId = Some ''slf4j-api'',
              version = Some ''1.7.30'', scope = Some ''compile''\<rparr>]"
    by (simp add: managed_dependencies_def tree_simps)
  from parse_dependencies_first_list[of "\<lambda>text. Parsed managed_tree" managed_pom managed_tree,
      OF _ d t b]
  have "parse_dependencies_from_pom (\<lambda>text. Parsed managed_tree) managed_pom =
     Inr [\<lparr>groupId = Some ''org.slf4j'', artifactId = Some ''slf4j-api'',
            version = Some ''1.7.30'', scope = Some ''compile''\<rparr>]"
    unfolding r by simp
  with d show ?thesis by simp
qed

end
